theory Spec2Isabelle
  imports Complex_Main "HOL-Library.AList"
begin

section \<open>Python values and failures\<close>

text \<open>
  The program is the Python 2 script \<^verbatim>\<open>window_reads.py\<close> (its tally and window code is
  repeated verbatim in \<^verbatim>\<open>window_feature.py\<close>). Every way a statement of the script can
  stop the run is a value of \<open>py_error\<close>; a computation returns \<open>py_error + 'a\<close> with
  \<open>Inl\<close> the failure. Python integers are unbounded and are \<open>int\<close>. Python floats are
  idealised as rationals: the model divides and adds without rounding, and the spellings
  of infinity and not-a-number that \<^verbatim>\<open>float()\<close> accepts stop the model with \<open>NotModelled\<close>.
\<close>

datatype py_error =
    TypeError
  | ValueError
  | IndexError
  | KeyError
  | NameError
  | ZeroDivisionError
  | EOFError
  | SystemExit string
  | NotModelled

type_synonym 'a result = "py_error + 'a"

definition bind :: "'a result \<Rightarrow> ('a \<Rightarrow> 'b result) \<Rightarrow> 'b result" where
  "bind m f = (case m of Inl e \<Rightarrow> Inl e | Inr v \<Rightarrow> f v)"

subsection \<open>Characters and \<^verbatim>\<open>int()\<close> on strings\<close>

definition is_digit :: "char \<Rightarrow> bool" where
  "is_digit ch \<longleftrightarrow> ch \<in> set ''0123456789''"

definition digit_val :: "char \<Rightarrow> int" where
  "digit_val ch = int (of_char ch) - 48"

text \<open>The decimal value of a string of digits, most significant digit first.\<close>

definition digits_val :: "string \<Rightarrow> int" where
  "digits_val ds = foldl (\<lambda>acc ch. acc * 10 + digit_val ch) 0 ds"

definition is_space :: "char \<Rightarrow> bool" where
  "is_space ch \<longleftrightarrow> ch \<in> {CHR '' '', CHR 0x09, CHR 0x0A, CHR 0x0B, CHR 0x0C, CHR 0x0D}"

text \<open>\<^verbatim>\<open>s.strip()\<close>: whitespace removed at both ends.\<close>

definition strip :: "string \<Rightarrow> string" where
  "strip s = rev (dropWhile is_space (rev (dropWhile is_space s)))"

text \<open>
  \<^verbatim>\<open>int(s)\<close> for a byte string: surrounding whitespace is ignored, one sign is allowed, and
  the rest must be one or more decimal digits; anything else raises \<^verbatim>\<open>ValueError\<close>.
\<close>

definition unsigned_int :: "string \<Rightarrow> int option" where
  "unsigned_int ds = (if ds \<noteq> [] \<and> list_all is_digit ds then Some (digits_val ds) else None)"

definition py_int :: "string \<Rightarrow> int option" where
  "py_int s =
     (case strip s of
        [] \<Rightarrow> None
      | ch # rest \<Rightarrow>
          if ch = CHR ''-'' then map_option uminus (unsigned_int rest)
          else if ch = CHR ''+'' then unsigned_int rest
          else unsigned_int (ch # rest))"

section \<open>getLength\<close>

text \<open>
  The local variable \<^verbatim>\<open>number\<close> starts as the empty string and is assigned the integer
  \<^verbatim>\<open>0\<close> after every character that is not a digit, so it holds either a string or an
  integer.
\<close>

datatype number_var = Str string | Num int

text \<open>
  One pass of the \<^verbatim>\<open>for j in range(len(cigar))\<close> loop per character.
  \<^item> A digit: \<^verbatim>\<open>int(cigar[j])\<close> succeeds and \<^verbatim>\<open>number += str(...)\<close> appends the digit to a
    string; when \<^verbatim>\<open>number\<close> is an integer the \<^verbatim>\<open>+=\<close> raises \<^verbatim>\<open>TypeError\<close>, which the
    \<^verbatim>\<open>except ValueError\<close> clause does not catch.
  \<^item> Any other character: \<^verbatim>\<open>int(cigar[j])\<close> raises \<^verbatim>\<open>ValueError\<close>, the handler adds
    \<^verbatim>\<open>int(number)\<close> to \<^verbatim>\<open>count\<close> for the codes M, X, I, S and =, and sets \<^verbatim>\<open>number = 0\<close>.
    \<^verbatim>\<open>int(number)\<close> on the empty string raises \<^verbatim>\<open>ValueError\<close> inside the handler.
\<close>

definition is_length_op :: "char \<Rightarrow> bool" where
  "is_length_op ch \<longleftrightarrow> ch = CHR ''M'' \<or> ch = CHR ''X'' \<or> ch = CHR ''I'' \<or> ch = CHR ''S'' \<or> ch = CHR ''=''"

definition int_of_number :: "number_var \<Rightarrow> int result" where
  "int_of_number number =
     (case number of
        Num n \<Rightarrow> Inr n
      | Str s \<Rightarrow> (case py_int s of None \<Rightarrow> Inl ValueError | Some n \<Rightarrow> Inr n))"

fun getLength_loop :: "string \<Rightarrow> number_var \<Rightarrow> int \<Rightarrow> int result" where
  "getLength_loop [] number count = Inr count"
| "getLength_loop (ch # rest) number count =
     (if is_digit ch then
        (case number of
           Str s \<Rightarrow> getLength_loop rest (Str (s @ [ch])) count
         | Num n \<Rightarrow> Inl TypeError)
      else if is_length_op ch then
        (case int_of_number number of
           Inl e \<Rightarrow> Inl e
         | Inr n \<Rightarrow> getLength_loop rest (Num 0) (count + n))
      else getLength_loop rest (Num 0) count)"

definition getLength :: "string \<Rightarrow> int result" where
  "getLength cigar = getLength_loop cigar (Str '''') 0"

section \<open>Strings the script takes apart\<close>

text \<open>\<^verbatim>\<open>s.split(sep)\<close> for a separator of one character: always at least one piece.\<close>

fun split_on :: "char \<Rightarrow> string \<Rightarrow> string list" where
  "split_on sep [] = [[]]"
| "split_on sep (ch # rest) =
     (if ch = sep then [] # split_on sep rest
      else (case split_on sep rest of
              [] \<Rightarrow> [[ch]]
            | p # ps \<Rightarrow> (ch # p) # ps))"

definition tab :: char where
  "tab = CHR 0x09"

text \<open>\<^verbatim>\<open>"\t".join(fields)\<close>, used to write lines of a SAM file down.\<close>

fun tsv :: "string list \<Rightarrow> string" where
  "tsv [] = []"
| "tsv [p] = p"
| "tsv (p # q # ps) = p @ tab # tsv (q # ps)"

text \<open>\<^verbatim>\<open>parts[i]\<close> for a constant index \<open>i \<ge> 0\<close>.\<close>

definition field :: "string list \<Rightarrow> nat \<Rightarrow> string result" where
  "field parts i = (if i < length parts then Inr (parts ! i) else Inl IndexError)"

definition int_field :: "string \<Rightarrow> int result" where
  "int_field s = (case py_int s of None \<Rightarrow> Inl ValueError | Some n \<Rightarrow> Inr n)"

subsection \<open>\<^verbatim>\<open>float()\<close> on strings\<close>

definition to_upper :: "char \<Rightarrow> char" where
  "to_upper ch = (let n = (of_char ch :: nat) in if 97 \<le> n \<and> n \<le> 122 then char_of (n - 32) else ch)"

definition signed_int :: "string \<Rightarrow> int option" where
  "signed_int s =
     (case s of
        [] \<Rightarrow> None
      | ch # rest \<Rightarrow>
          if ch = CHR ''-'' then map_option uminus (unsigned_int rest)
          else if ch = CHR ''+'' then unsigned_int rest
          else unsigned_int (ch # rest))"

definition pow10 :: "int \<Rightarrow> rat" where
  "pow10 e = (if 0 \<le> e then 10 ^ nat e else 1 / 10 ^ nat (- e))"

text \<open>
  A decimal literal without sign: digits, an optional point with digits (one digit at
  least on either side), an optional exponent. Its value is the rational it denotes; the
  rounding of \<^verbatim>\<open>float()\<close> to a binary double is not modelled. The spellings of infinity
  and not-a-number stop the model.
\<close>

definition float_unsigned :: "string \<Rightarrow> rat result" where
  "float_unsigned s =
     (let ip = takeWhile is_digit s;
          r1 = dropWhile is_digit s;
          pt = (r1 \<noteq> [] \<and> hd r1 = CHR ''.'');
          fp = (if pt then takeWhile is_digit (tl r1) else []);
          r2 = (if pt then dropWhile is_digit (tl r1) else r1);
          mant = rat_of_int (digits_val (ip @ fp)) / 10 ^ length fp
      in if ip @ fp = [] then
           (if map to_upper s \<in> {''INF'', ''INFINITY'', ''NAN''} then Inl NotModelled
            else Inl ValueError)
         else if r2 = [] then Inr mant
         else if hd r2 = CHR ''e'' \<or> hd r2 = CHR ''E'' then
           (case signed_int (tl r2) of
              None \<Rightarrow> Inl ValueError
            | Some e \<Rightarrow> Inr (mant * pow10 e))
         else Inl ValueError)"

definition py_float :: "string \<Rightarrow> rat result" where
  "py_float s =
     (case strip s of
        [] \<Rightarrow> Inl ValueError
      | ch # rest \<Rightarrow>
          if ch = CHR ''-'' then map_sum id uminus (float_unsigned rest)
          else if ch = CHR ''+'' then float_unsigned rest
          else float_unsigned (ch # rest))"

section \<open>Command line and verifyWS\<close>

text \<open>The options of \<^verbatim>\<open>argparse\<close> the script reads after start-up.\<close>

record args =
  arg_window :: int
  arg_step :: int
  normalize :: bool
  abundance :: bool
  sizemin :: int
  sizemax :: int
  poolstrands :: bool

text \<open>
  The \<^verbatim>\<open>while True\<close> loop of \<^verbatim>\<open>verifyWS\<close>. Its argument is what the user types, one string
  per call of \<^verbatim>\<open>raw_input\<close>; when nothing is left \<^verbatim>\<open>raw_input\<close> raises \<^verbatim>\<open>EOFError\<close>, which
  no handler catches. A \<^verbatim>\<open>ValueError\<close>, \<^verbatim>\<open>ZeroError\<close> or \<^verbatim>\<open>FactorError\<close> is caught and the
  loop starts over with the next input; only \<^verbatim>\<open>break\<close> leaves it.
\<close>

fun verifyWS_prompt :: "string list \<Rightarrow> (int \<times> int) result" where
  "verifyWS_prompt [] = Inl EOFError"
| "verifyWS_prompt [a] =
     (case py_int a of
        None \<Rightarrow> verifyWS_prompt []
      | Some w \<Rightarrow> if w = 0 then verifyWS_prompt [] else Inl EOFError)"
| "verifyWS_prompt (a # b # rest) =
     (case py_int a of
        None \<Rightarrow> verifyWS_prompt (b # rest)
      | Some w \<Rightarrow>
          if w = 0 then verifyWS_prompt (b # rest)
          else (case py_int b of
                  None \<Rightarrow> verifyWS_prompt rest
                | Some s \<Rightarrow>
                    if s = 0 then verifyWS_prompt rest
                    else if w mod s \<noteq> 0 then verifyWS_prompt rest
                    else Inr (w, s)))"

text \<open>
  Python's \<^verbatim>\<open>%\<close> on integers takes the sign of the divisor, as \<open>mod\<close> on \<open>int\<close> does; the
  \<^verbatim>\<open>or\<close> chain stops at the first true test, so \<^verbatim>\<open>w % s\<close> is never computed with \<^verbatim>\<open>s == 0\<close>.
\<close>

definition verifyWS :: "int \<Rightarrow> int \<Rightarrow> string list \<Rightarrow> (int \<times> int) result" where
  "verifyWS w s typed =
     (if w = 0 \<or> s = 0 \<or> w mod s \<noteq> 0 then verifyWS_prompt typed else Inr (w, s))"

section \<open>The chromosome table\<close>

text \<open>
  The dictionary \<^verbatim>\<open>chromosomes\<close> is an association list with distinct keys. The order of the
  list stands for the order in which \<^verbatim>\<open>chromosomes.keys()\<close> yields the names; Python 2 fixes
  that order by hashing, and it is the same in every loop of a run since the dictionary is
  not changed after it is built.
\<close>

type_synonym chromosomes = "(string \<times> int) list"

text \<open>The key and the value of \<^verbatim>\<open>c[parts[1].strip()[3:]] = int(parts[2].strip()[3:])\<close>.\<close>

definition sq_entry :: "string \<Rightarrow> (string \<times> int) result" where
  "sq_entry line =
     (let parts = split_on tab line
      in bind (field parts 1) (\<lambda>p1.
         bind (field parts 2) (\<lambda>p2.
         bind (int_field (drop 3 (strip p2))) (\<lambda>n.
         Inr (drop 3 (strip p1), n)))))"

text \<open>The checks on the first line that is not a header line.\<close>

definition first_record_check :: "args \<Rightarrow> chromosomes \<Rightarrow> string \<Rightarrow> unit result" where
  "first_record_check a c line =
     (let parts = split_on tab line;
          tags = map (take 2) (drop 11 parts)
      in if c = [] then
           Inl (SystemExit ''No chromosome sizes provided in @SQ header lines.'')
         else if length parts < 11 then
           Inl (SystemExit ''Incomplete SAM file, missing required columns.'')
         else if normalize a \<and> ''NH'' \<notin> set tags then
           Inl (SystemExit ''Missing NH:i:00 tags required for the --multireads option.'')
         else if abundance a \<and> ''NA'' \<notin> set tags then
           Inl (SystemExit ''Missing NA:i:00 tags required for the --abundance option.'')
         else Inr ())"

text \<open>
  The file is the list of its lines; \<^verbatim>\<open>readline()\<close> past the last line returns the empty
  string, which ends the loop as an empty line does.
\<close>

fun getChromosomes_loop :: "args \<Rightarrow> string list \<Rightarrow> chromosomes \<Rightarrow> chromosomes result" where
  "getChromosomes_loop a [] c = Inr c"
| "getChromosomes_loop a (raw # rest) c =
     (let line = strip raw
      in if line = [] then Inr c
         else (case (if take 3 line = ''@SQ''
                     then map_sum id (\<lambda>(name, len). AList.update name len c) (sq_entry line)
                     else Inr c) of
                 Inl e \<Rightarrow> Inl e
               | Inr c' \<Rightarrow>
                   if take 1 line \<noteq> ''@''
                   then map_sum id (\<lambda>_. c') (first_record_check a c' line)
                   else getChromosomes_loop a rest c'))"

definition getChromosomes :: "args \<Rightarrow> string list \<Rightarrow> chromosomes result" where
  "getChromosomes a sam = getChromosomes_loop a sam []"

section \<open>Step bins\<close>

text \<open>
  \<^verbatim>\<open>steps[c]\<close> is a list of bins, a bin a list over the read lengths kept, and each of these
  a list over the strands. The comprehensions build a fresh list at every level, so no two
  cells share storage and the nested lists are values.
\<close>

type_synonym grid = "rat list list"
type_synonym bins = "grid list"

text \<open>A Python list index: a negative index counts from the end, anything outside raises.\<close>

definition py_index :: "'a list \<Rightarrow> int \<Rightarrow> nat option" where
  "py_index xs i =
     (let n = int (length xs);
          j = (if i < 0 then i + n else i)
      in if 0 \<le> j \<and> j < n then Some (nat j) else None)"

text \<open>The value of \<^verbatim>\<open>bs[b][l][x]\<close>.\<close>

definition get_cell :: "bins \<Rightarrow> int \<Rightarrow> int \<Rightarrow> int \<Rightarrow> rat result" where
  "get_cell bs b l x =
     (case py_index bs b of
        None \<Rightarrow> Inl IndexError
      | Some b' \<Rightarrow>
          (case py_index (bs ! b') l of
             None \<Rightarrow> Inl IndexError
           | Some l' \<Rightarrow>
               (case py_index (bs ! b' ! l') x of
                  None \<Rightarrow> Inl IndexError
                | Some x' \<Rightarrow> Inr (bs ! b' ! l' ! x'))))"

text \<open>
  The statement \<^verbatim>\<open>bs[b][l][x] += v\<close>. Python looks the target cell up first, evaluates the
  right-hand side next (the argument \<open>v\<close>, which may itself fail) and stores last.
\<close>

definition add_cell :: "bins \<Rightarrow> int \<Rightarrow> int \<Rightarrow> int \<Rightarrow> rat result \<Rightarrow> bins result" where
  "add_cell bs b l x v =
     (case py_index bs b of
        None \<Rightarrow> Inl IndexError
      | Some b' \<Rightarrow>
          (case py_index (bs ! b') l of
             None \<Rightarrow> Inl IndexError
           | Some l' \<Rightarrow>
               (case py_index (bs ! b' ! l') x of
                  None \<Rightarrow> Inl IndexError
                | Some x' \<Rightarrow>
                    (case v of
                       Inl e \<Rightarrow> Inl e
                     | Inr d \<Rightarrow>
                         Inr (bs[b' := (bs ! b')[l' := (bs ! b' ! l')[x' := bs ! b' ! l' ! x' + d]]])))))"

text \<open>A \<^verbatim>\<open>for\<close> loop whose body may raise: the first failure ends the loop.\<close>

fun for_each :: "'i list \<Rightarrow> ('i \<Rightarrow> 's \<Rightarrow> 's result) \<Rightarrow> 's \<Rightarrow> 's result" where
  "for_each [] body s = Inr s"
| "for_each (i # rest) body s =
     (case body i s of
        Inl e \<Rightarrow> Inl e
      | Inr s' \<Rightarrow> for_each rest body s')"

text \<open>
  \<^verbatim>\<open>int(math.ceil(a / float(b)))\<close>, with the quotient taken exactly. The float quotient
  rounds to the same ceiling while the operands stay below \<open>2^53\<close>. The script divides by
  \<^verbatim>\<open>step\<close> only after \<^verbatim>\<open>verifyWS\<close> has returned a step that is not zero.
\<close>

definition ceil_div :: "int \<Rightarrow> int \<Rightarrow> int" where
  "ceil_div a b = \<lceil>rat_of_int a / rat_of_int b\<rceil>"

definition strand_count :: "args \<Rightarrow> nat" where
  "strand_count a = (if poolstrands a then 1 else 2)"

text \<open>\<^verbatim>\<open>len(read_size)\<close>, the number of keys \<^verbatim>\<open>range(args.sizemin, args.sizemax + 1)\<close> gives.\<close>

definition class_count :: "args \<Rightarrow> nat" where
  "class_count a = nat (sizemax a - sizemin a + 1)"

definition zero_bins :: "nat \<Rightarrow> nat \<Rightarrow> nat \<Rightarrow> bins" where
  "zero_bins n nl ns = replicate n (replicate nl (replicate ns 0))"

definition init_steps :: "args \<Rightarrow> int \<Rightarrow> chromosomes \<Rightarrow> (string \<rightharpoonup> bins)" where
  "init_steps a step chromosomes =
     fold (\<lambda>(c, len) m. m(c \<mapsto> zero_bins (nat (ceil_div len step)) (class_count a) (strand_count a)))
       chromosomes Map.empty"

section \<open>Tallying alignments\<close>

text \<open>
  The variables the loop over the file carries from one line to the next: the bins, and
  \<^verbatim>\<open>na\<close> and \<^verbatim>\<open>nh\<close>, which are unbound (\<open>None\<close>) until a line assigns them.
\<close>

record tally_state =
  steps :: "string \<rightharpoonup> bins"
  na :: "int option"
  nh :: "rat option"

text \<open>
  The scan \<^verbatim>\<open>for i in range(len(parts)-1,-1,-1)\<close>, given the fields last to first: the text
  after the last colon of the first field found that starts with the tag.
\<close>

fun scan_tag :: "string \<Rightarrow> string list \<Rightarrow> string option" where
  "scan_tag t [] = None"
| "scan_tag t (p # ps) =
     (if take 2 p = t then Some (last (split_on CHR '':'' p)) else scan_tag t ps)"

text \<open>
  The value of \<^verbatim>\<open>na\<close> after the \<^verbatim>\<open>if args.abundance\<close> statement. The \<^verbatim>\<open>for\<close> loop has no
  \<^verbatim>\<open>else\<close>: when no field carries the tag, nothing is assigned and \<^verbatim>\<open>na\<close> keeps what it held.
\<close>

definition read_na :: "args \<Rightarrow> string list \<Rightarrow> int option \<Rightarrow> int option result" where
  "read_na a parts old =
     (if abundance a then
        (case scan_tag ''NA'' (rev parts) of
           None \<Rightarrow> Inr old
         | Some s \<Rightarrow> map_sum id Some (int_field s))
      else Inr (Some 1))"

definition read_nh :: "args \<Rightarrow> string list \<Rightarrow> rat option \<Rightarrow> rat option result" where
  "read_nh a parts old =
     (if normalize a then
        (case scan_tag ''NH'' (rev parts) of
           None \<Rightarrow> Inr old
         | Some s \<Rightarrow> map_sum id Some (py_float s))
      else Inr (Some 1))"

text \<open>
  The right-hand side \<^verbatim>\<open>(bases * na) / nh\<close>. Without \<^verbatim>\<open>--normalize\<close> the divisor is the
  integer 1 and Python 2 divides integers exactly by it; with it the divisor is a float.
\<close>

definition weight :: "int \<Rightarrow> int option \<Rightarrow> rat option \<Rightarrow> rat result" where
  "weight bases a h =
     (case a of
        None \<Rightarrow> Inl NameError
      | Some a' \<Rightarrow>
          (case h of
             None \<Rightarrow> Inl NameError
           | Some h' \<Rightarrow>
               if h' = 0 then Inl ZeroDivisionError
               else Inr (rat_of_int (bases * a') / h')))"

definition bin_of :: "int \<Rightarrow> int \<Rightarrow> int" where
  "bin_of step pos = ceil_div pos step - 1"

text \<open>
  The bins one alignment is added to, in the order of the statements, each with the number
  of bases that multiplies \<^verbatim>\<open>na\<close>: the whole length when the read lies in one bin, else the
  part in the first bin, the part in the last bin, and \<^verbatim>\<open>step\<close> for each
  \<^verbatim>\<open>b in range(1, full_bins + 1)\<close>.
\<close>

definition bin_writes :: "int \<Rightarrow> int \<Rightarrow> int \<Rightarrow> (int \<times> int) list" where
  "bin_writes step r_start r_length =
     (let r_end = r_start + r_length - 1;
          bin_s = bin_of step r_start;
          bin_e = bin_of step r_end
      in if bin_s = bin_e then [(bin_s, r_length)]
         else (bin_s, (bin_s + 1) * step - r_start + 1)
            # (bin_e, r_end - bin_e * step)
            # map (\<lambda>b. (bin_s + b, step)) [1 .. bin_e - bin_s - 1])"

text \<open>The statement \<^verbatim>\<open>steps[c][b][l][x] += v\<close> on the dictionary.\<close>

definition add_tally ::
  "(string \<rightharpoonup> bins) \<Rightarrow> string \<Rightarrow> int \<Rightarrow> int \<Rightarrow> int \<Rightarrow> rat result \<Rightarrow> (string \<rightharpoonup> bins) result" where
  "add_tally m c b l x v =
     (case m c of
        None \<Rightarrow> Inl KeyError
      | Some bs \<Rightarrow> map_sum id (\<lambda>bs'. m(c \<mapsto> bs')) (add_cell bs b l x v))"

definition add_alignment ::
  "int \<Rightarrow> int \<Rightarrow> string \<Rightarrow> int \<Rightarrow> int \<Rightarrow> int \<Rightarrow> int option \<Rightarrow> rat option
     \<Rightarrow> (string \<rightharpoonup> bins) \<Rightarrow> (string \<rightharpoonup> bins) result" where
  "add_alignment step smin r_chromosome r_start r_length strand a h m =
     for_each (bin_writes step r_start r_length)
       (\<lambda>(b, bases) m'. add_tally m' r_chromosome b (r_length - smin) strand (weight bases a h)) m"

text \<open>One line of the file that is not empty.\<close>

definition tally_line :: "args \<Rightarrow> int \<Rightarrow> string \<Rightarrow> tally_state \<Rightarrow> tally_state result" where
  "tally_line a step line st =
     (let parts = split_on tab line
      in if hd line = CHR ''@'' then Inr st
         else
           bind (field parts 1) (\<lambda>f.
           bind (int_field f) (\<lambda>flag.
           if flag = 4 then Inr st
           else
             bind (field parts 5) (\<lambda>cigar.
             bind (getLength cigar) (\<lambda>r_length.
             if \<not> (sizemin a \<le> r_length \<and> r_length \<le> sizemax a) then Inr st
             else
               bind (field parts 2) (\<lambda>r_chromosome.
               bind (field parts 3) (\<lambda>p.
               bind (int_field p) (\<lambda>r_start.
               bind (read_na a parts (na st)) (\<lambda>na'.
               bind (read_nh a parts (nh st)) (\<lambda>nh'.
               bind (add_alignment step (sizemin a) r_chromosome r_start r_length
                       (if \<not> poolstrands a \<and> flag = 16 then 1 else 0) na' nh' (steps st)) (\<lambda>m.
               Inr (st\<lparr>steps := m, na := na', nh := nh'\<rparr>))))))))))))"

fun tally :: "args \<Rightarrow> int \<Rightarrow> string list \<Rightarrow> tally_state \<Rightarrow> tally_state result" where
  "tally a step [] st = Inr st"
| "tally a step (raw # rest) st =
     (let line = strip raw
      in if line = [] then Inr st
         else (case tally_line a step line st of
                 Inl e \<Rightarrow> Inl e
               | Inr st' \<Rightarrow> tally a step rest st'))"

section \<open>Windows\<close>

text \<open>
  \<^verbatim>\<open>window_count\<close> is assigned once, before the loop over the chromosomes, from
  \<^verbatim>\<open>chromosomes[c]\<close>: \<^verbatim>\<open>c\<close> is what the loop that built \<^verbatim>\<open>steps\<close> left in it, the last
  name of \<^verbatim>\<open>chromosomes.keys()\<close>, and is unbound when the table is empty.
\<close>

definition window_count :: "chromosomes \<Rightarrow> int \<Rightarrow> int \<Rightarrow> int result" where
  "window_count chromosomes window step =
     (if chromosomes = [] then Inl NameError
      else Inr (ceil_div (snd (last chromosomes) - window) step + 1))"

text \<open>
  The four nested loops that fill \<^verbatim>\<open>windows[c]\<close> from \<^verbatim>\<open>steps[c]\<close>; \<open>wc\<close> is
  \<^verbatim>\<open>range(window_count)\<close> and \<open>k\<close> is \<^verbatim>\<open>range(int(window / step))\<close>.
\<close>

definition window_sums :: "bins \<Rightarrow> nat \<Rightarrow> nat \<Rightarrow> nat \<Rightarrow> nat \<Rightarrow> bins result" where
  "window_sums bs wc k nl ns =
     for_each [0..<wc] (\<lambda>w.
       for_each [0..<k] (\<lambda>s.
         for_each [0..<nl] (\<lambda>l.
           for_each [0..<ns] (\<lambda>x win.
             add_cell win (int w) (int l) (int x) (get_cell bs (int (w + s)) (int l) (int x))))))
       (zero_bins wc nl ns)"

text \<open>The lines written for one chromosome: its name, the window index, the tallies.\<close>

type_synonym row = "string \<times> nat \<times> rat list"

definition rows_of :: "string \<Rightarrow> bins \<Rightarrow> row list" where
  "rows_of c win = map (\<lambda>w. (c, w, concat (win ! w))) [0..<length win]"

text \<open>
  The loop over the chromosomes. The rows of a chromosome are written before the next one
  is started, so a failure leaves the rows of the chromosomes before it in the file.
\<close>

fun aggregate_loop ::
  "args \<Rightarrow> (string \<rightharpoonup> bins) \<Rightarrow> nat \<Rightarrow> nat \<Rightarrow> chromosomes \<Rightarrow> row list \<times> py_error option" where
  "aggregate_loop a m wc k [] = ([], None)"
| "aggregate_loop a m wc k ((c, len) # rest) =
     (case m c of
        None \<Rightarrow> ([], Some KeyError)
      | Some bs \<Rightarrow>
          (case window_sums bs wc k (class_count a) (strand_count a) of
             Inl e \<Rightarrow> ([], Some e)
           | Inr win \<Rightarrow>
               (case aggregate_loop a m wc k rest of
                  (rows, err) \<Rightarrow> (rows_of c win @ rows, err))))"

definition aggregate ::
  "args \<Rightarrow> chromosomes \<Rightarrow> int \<Rightarrow> int \<Rightarrow> (string \<rightharpoonup> bins) \<Rightarrow> row list \<times> py_error option" where
  "aggregate a chromosomes window step m =
     (case window_count chromosomes window step of
        Inl e \<Rightarrow> ([], Some e)
      | Inr n \<Rightarrow> aggregate_loop a m (nat n) (nat (window div step)) chromosomes)"

section \<open>The whole run\<close>

text \<open>
  The script from the header scan to the last row: the lines of the SAM file, and what
  the user types when \<^verbatim>\<open>verifyWS\<close> asks. The result is the rows written and the failure
  that ended the run, if one did.
\<close>

definition main :: "args \<Rightarrow> string list \<Rightarrow> string list \<Rightarrow> row list \<times> py_error option" where
  "main a sam typed =
     (case getChromosomes a sam of
        Inl e \<Rightarrow> ([], Some e)
      | Inr chromosomes \<Rightarrow>
          (case verifyWS (arg_window a) (arg_step a) typed of
             Inl e \<Rightarrow> ([], Some e)
           | Inr (window, step) \<Rightarrow>
               (case tally a step sam \<lparr>steps = init_steps a step chromosomes, na = None, nh = None\<rparr> of
                  Inl e \<Rightarrow> ([], Some e)
                | Inr st \<Rightarrow> aggregate a chromosomes window step (steps st))))"

section \<open>Measures on the bins\<close>



text \<open>
  The layout the comprehensions give a chromosome: \<open>n\<close> bins, each of \<open>nl\<close> read lengths,
  each of \<open>ns\<close> strands.
\<close>

definition shape :: "bins \<Rightarrow> nat \<Rightarrow> nat \<Rightarrow> nat \<Rightarrow> bool" where
  "shape bs n nl ns \<longleftrightarrow>
     length bs = n \<and> list_all (\<lambda>g. length g = nl \<and> list_all (\<lambda>r. length r = ns) g) bs"

section \<open>Facts about the exact ceiling quotient\<close>







section \<open>Facts about verifyWS\<close>


section \<open>Facts about the bins\<close>









lemma sum_list_const_upto: "(\<Sum>b\<leftarrow>[1..n]. (c::int)) = (if 0 \<le> n then n * c else 0)"
  by (simp add: sum_list_triv)



lemma shape_nth:
  "shape bs n nl ns \<Longrightarrow> b < n \<Longrightarrow> length (bs ! b) = nl"
  "shape bs n nl ns \<Longrightarrow> b < n \<Longrightarrow> l < nl \<Longrightarrow> length (bs ! b ! l) = ns"
  by (auto simp: shape_def list_all_length)

lemma shape_length: "shape bs n nl ns \<Longrightarrow> length bs = n"
  by (simp add: shape_def)

lemma shape_update:
  assumes "shape bs n nl ns"
  shows "shape (bs[b := (bs ! b)[l := (bs ! b ! l)[x := v]]]) n nl ns"
proof (cases "b < length bs")
  case False
  then show ?thesis using assms by (simp add: list_update_beyond not_less)
next
  case b: True
  show ?thesis
  proof (cases "l < length (bs ! b)")
    case False
    then show ?thesis using assms by (simp add: list_update_beyond not_less list_update_same_conv)
  next
    case True
    with b assms show ?thesis
      by (auto simp: shape_def list_all_length nth_list_update)
  qed
qed

lemma shape_zero_bins: "shape (zero_bins n nl ns) n nl ns"
  by (simp add: shape_def zero_bins_def list_all_length)

lemma py_index_nat: "i < length xs \<Longrightarrow> py_index xs (int i) = Some i"
  by (simp add: py_index_def)

lemma add_cell_in_range:
  assumes "shape bs n nl ns" and "b < n" and "l < nl" and "x < ns"
  shows "add_cell bs (int b) (int l) (int x) (Inr d)
           = Inr (bs[b := (bs ! b)[l := (bs ! b ! l)[x := bs ! b ! l ! x + d]]])"
  using assms by (simp add: add_cell_def py_index_nat shape_nth shape_length)







text \<open>
  The facts above about the bases written and the order of the bins need a read of
  positive length. With \<^verbatim>\<open>--sizemin 0\<close> a CIGAR string without a counted operation passes the
  filter with length 0, and a read of length 0 that starts a bin is added to two bins with
  \<^verbatim>\<open>step\<close> bases each, the later bin first.
\<close>

lemma zero_length_read_writes: "bin_writes 10 11 0 = [(1, 10), (0, 10)]"
  by code_simp

section \<open>Facts about the window loops\<close>

lemma for_each_append:
  "for_each (xs @ ys) body s =
     (case for_each xs body s of Inl e \<Rightarrow> Inl e | Inr s' \<Rightarrow> for_each ys body s')"
  by (induction xs arbitrary: s) (auto split: sum.splits)

lemma for_each_adds:
  assumes body: "\<And>i win win'. i < n \<Longrightarrow> shape win wc nl ns \<Longrightarrow> body i win = Inr win' \<Longrightarrow>
            shape win' wc nl ns \<and> C i
            \<and> (\<forall>w<wc. \<forall>l<nl. \<forall>x<ns. win' ! w ! l ! x = win ! w ! l ! x + d i w l x)"
    and "shape win wc nl ns" and "for_each [0..<n] body win = Inr win'"
  shows "shape win' wc nl ns \<and> (\<forall>i<n. C i)
           \<and> (\<forall>w<wc. \<forall>l<nl. \<forall>x<ns. win' ! w ! l ! x = win ! w ! l ! x + (\<Sum>i<n. d i w l x))"
  using assms
proof (induction n arbitrary: win')
  case 0
  then show ?case by simp
next
  case (Suc n)
  from Suc.prems(3) obtain mid where
    m1: "for_each [0..<n] body win = Inr mid" and m2: "body n mid = Inr win'"
    by (auto simp: for_each_append split: sum.splits)
  have ih: "shape mid wc nl ns \<and> (\<forall>i<n. C i)
           \<and> (\<forall>w<wc. \<forall>l<nl. \<forall>x<ns. mid ! w ! l ! x = win ! w ! l ! x + (\<Sum>i<n. d i w l x))"
  proof (rule Suc.IH [OF _ Suc.prems(2) m1])
    fix i u u'
    assume "i < n" and "shape u wc nl ns" and "body i u = Inr u'"
    then show "shape u' wc nl ns \<and> C i
            \<and> (\<forall>w<wc. \<forall>l<nl. \<forall>x<ns. u' ! w ! l ! x = u ! w ! l ! x + d i w l x)"
      using Suc.prems(1) [of i u u'] by simp
  qed
  then have sm: "shape mid wc nl ns" by simp
  have last: "shape win' wc nl ns \<and> C n
            \<and> (\<forall>w<wc. \<forall>l<nl. \<forall>x<ns. win' ! w ! l ! x = mid ! w ! l ! x + d n w l x)"
    by (rule Suc.prems(1) [OF _ sm m2]) simp
  show ?case
    using ih last by (auto simp: less_Suc_eq)
qed

lemma py_index_nat_iff: "py_index xs (int i) = Some j \<longleftrightarrow> j = i \<and> i < length xs"
  by (auto simp: py_index_def)

lemma get_cell_Inr:
  "get_cell bs (int b) (int l) (int x) = Inr v \<Longrightarrow>
     b < length bs \<and> l < length (bs ! b) \<and> x < length (bs ! b ! l) \<and> v = bs ! b ! l ! x"
  by (auto simp: get_cell_def py_index_nat_iff split: option.splits)

lemma add_cell_Inr:
  "add_cell win b l x v = Inr win' \<Longrightarrow> \<exists>d. v = Inr d"
  by (auto simp: add_cell_def split: option.splits sum.splits)

lemma nth3_update:
  assumes "shape win wc nl ns" and "w < wc" and "l < nl" and "x < ns"
    and "w' < wc" and "l' < nl" and "x' < ns"
  shows "win[w := (win ! w)[l := (win ! w ! l)[x := v]]] ! w' ! l' ! x'
           = (if w' = w \<and> l' = l \<and> x' = x then v else win ! w' ! l' ! x')"
  using assms by (auto simp: shape_nth shape_length nth_list_update)

lemma window_cell_step:
  assumes "shape win wc nl ns" and "w < wc" and "l < nl" and "x < ns"
    and "add_cell win (int w) (int l) (int x) (get_cell bs (int (w + s)) (int l) (int x)) = Inr win'"
  shows "shape win' wc nl ns
       \<and> (w + s < length bs \<and> l < length (bs ! (w + s)) \<and> x < length (bs ! (w + s) ! l))
       \<and> (\<forall>w'<wc. \<forall>l'<nl. \<forall>x'<ns. win' ! w' ! l' ! x'
             = win ! w' ! l' ! x' + (if w' = w \<and> l' = l \<and> x' = x then bs ! (w + s) ! l ! x else 0))"
proof -
  from add_cell_Inr [OF assms(5)] obtain d where
    d: "get_cell bs (int (w + s)) (int l) (int x) = Inr d" by auto
  note r = get_cell_Inr [OF d]
  have "win' = win[w := (win ! w)[l := (win ! w ! l)[x := win ! w ! l ! x + d]]]"
    using assms(5) unfolding d add_cell_in_range [OF assms(1-4)] by simp
  then show ?thesis
    using r assms(1-4) by (auto simp: shape_update nth3_update)
qed


lemma sum_pick0:
  "j < (n::nat) \<Longrightarrow> (\<Sum>i<n. if j = i then f i else (0::rat)) = f j"
  by simp

lemma sum_pick:
  "j < (n::nat) \<Longrightarrow> (\<Sum>i<n. if P \<and> j = i then f i else (0::rat)) = (if P then f j else 0)"
  by (cases P) (simp_all add: sum_pick0)

lemma sum_pick2:
  "j < (n::nat) \<Longrightarrow> (\<Sum>i<n. if P \<and> Q \<and> j = i then f i else (0::rat)) = (if P \<and> Q then f j else 0)"
  using sum_pick [of j n "P \<and> Q" f] by simp

lemma sum_cond:
  "(\<Sum>i<(n::nat). if P then f i else (0::rat)) = (if P then (\<Sum>i<n. f i) else 0)"
  by (cases P) simp_all

lemma window_x_loop:
  assumes "shape win wc nl ns" and "w < wc" and "l < nl"
    and "for_each [0..<ns] (\<lambda>x win.
           add_cell win (int w) (int l) (int x) (get_cell bs (int (w + s)) (int l) (int x))) win = Inr win'"
  shows "shape win' wc nl ns
       \<and> (\<forall>x<ns. w + s < length bs \<and> l < length (bs ! (w + s)) \<and> x < length (bs ! (w + s) ! l))
       \<and> (\<forall>w'<wc. \<forall>l'<nl. \<forall>x'<ns. win' ! w' ! l' ! x'
             = win ! w' ! l' ! x' + (if w' = w \<and> l' = l then bs ! (w + s) ! l ! x' else 0))"
proof -
  have "shape win' wc nl ns
       \<and> (\<forall>x<ns. w + s < length bs \<and> l < length (bs ! (w + s)) \<and> x < length (bs ! (w + s) ! l))
       \<and> (\<forall>w'<wc. \<forall>l'<nl. \<forall>x'<ns. win' ! w' ! l' ! x'
             = win ! w' ! l' ! x'
               + (\<Sum>x<ns. if (w' = w \<and> l' = l) \<and> x' = x then bs ! (w + s) ! l ! x else 0))"
  proof (rule for_each_adds [OF _ assms(1) assms(4)])
    fix x u u'
    assume "x < ns" and "shape u wc nl ns"
      and "add_cell u (int w) (int l) (int x) (get_cell bs (int (w + s)) (int l) (int x)) = Inr u'"
    from window_cell_step [OF this(2) assms(2,3) this(1,3)]
    show "shape u' wc nl ns
       \<and> (w + s < length bs \<and> l < length (bs ! (w + s)) \<and> x < length (bs ! (w + s) ! l))
       \<and> (\<forall>w'<wc. \<forall>l'<nl. \<forall>x'<ns. u' ! w' ! l' ! x'
             = u ! w' ! l' ! x' + (if (w' = w \<and> l' = l) \<and> x' = x then bs ! (w + s) ! l ! x else 0))"
      by simp
  qed
  then show ?thesis by (simp add: sum_pick2)
qed

lemma window_l_loop:
  assumes "shape win wc nl ns" and "w < wc"
    and "for_each [0..<nl] (\<lambda>l. for_each [0..<ns] (\<lambda>x win.
           add_cell win (int w) (int l) (int x) (get_cell bs (int (w + s)) (int l) (int x)))) win = Inr win'"
  shows "shape win' wc nl ns
       \<and> (\<forall>l<nl. \<forall>x<ns. w + s < length bs \<and> l < length (bs ! (w + s)) \<and> x < length (bs ! (w + s) ! l))
       \<and> (\<forall>w'<wc. \<forall>l'<nl. \<forall>x'<ns. win' ! w' ! l' ! x'
             = win ! w' ! l' ! x' + (if w' = w then bs ! (w + s) ! l' ! x' else 0))"
proof -
  have "shape win' wc nl ns
       \<and> (\<forall>l<nl. \<forall>x<ns. w + s < length bs \<and> l < length (bs ! (w + s)) \<and> x < length (bs ! (w + s) ! l))
       \<and> (\<forall>w'<wc. \<forall>l'<nl. \<forall>x'<ns. win' ! w' ! l' ! x'
             = win ! w' ! l' ! x'
               + (\<Sum>l<nl. if w' = w \<and> l' = l then bs ! (w + s) ! l ! x' else 0))"
  proof (rule for_each_adds [OF _ assms(1) assms(3)])
    fix l u u'
    assume "l < nl" and "shape u wc nl ns"
      and "for_each [0..<ns] (\<lambda>x win.
           add_cell win (int w) (int l) (int x) (get_cell bs (int (w + s)) (int l) (int x))) u = Inr u'"
    from window_x_loop [OF this(2) assms(2) this(1,3)]
    show "shape u' wc nl ns
       \<and> (\<forall>x<ns. w + s < length bs \<and> l < length (bs ! (w + s)) \<and> x < length (bs ! (w + s) ! l))
       \<and> (\<forall>w'<wc. \<forall>l'<nl. \<forall>x'<ns. u' ! w' ! l' ! x'
             = u ! w' ! l' ! x' + (if w' = w \<and> l' = l then bs ! (w + s) ! l ! x' else 0))"
      by simp
  qed
  then show ?thesis by (simp add: sum_pick)
qed

lemma window_s_loop:
  assumes "shape win wc nl ns" and "w < wc"
    and "for_each [0..<k] (\<lambda>s. for_each [0..<nl] (\<lambda>l. for_each [0..<ns] (\<lambda>x win.
           add_cell win (int w) (int l) (int x) (get_cell bs (int (w + s)) (int l) (int x))))) win = Inr win'"
  shows "shape win' wc nl ns
       \<and> (\<forall>s<k. \<forall>l<nl. \<forall>x<ns. w + s < length bs \<and> l < length (bs ! (w + s)) \<and> x < length (bs ! (w + s) ! l))
       \<and> (\<forall>w'<wc. \<forall>l'<nl. \<forall>x'<ns. win' ! w' ! l' ! x'
             = win ! w' ! l' ! x' + (if w' = w then (\<Sum>s<k. bs ! (w + s) ! l' ! x') else 0))"
proof -
  have "shape win' wc nl ns
       \<and> (\<forall>s<k. \<forall>l<nl. \<forall>x<ns. w + s < length bs \<and> l < length (bs ! (w + s)) \<and> x < length (bs ! (w + s) ! l))
       \<and> (\<forall>w'<wc. \<forall>l'<nl. \<forall>x'<ns. win' ! w' ! l' ! x'
             = win ! w' ! l' ! x'
               + (\<Sum>s<k. if w' = w then bs ! (w + s) ! l' ! x' else 0))"
  proof (rule for_each_adds [OF _ assms(1) assms(3)])
    fix s u u'
    assume "s < k" and "shape u wc nl ns"
      and "for_each [0..<nl] (\<lambda>l. for_each [0..<ns] (\<lambda>x win.
           add_cell win (int w) (int l) (int x) (get_cell bs (int (w + s)) (int l) (int x)))) u = Inr u'"
    from window_l_loop [OF this(2) assms(2) this(3)]
    show "shape u' wc nl ns
       \<and> (\<forall>l<nl. \<forall>x<ns. w + s < length bs \<and> l < length (bs ! (w + s)) \<and> x < length (bs ! (w + s) ! l))
       \<and> (\<forall>w'<wc. \<forall>l'<nl. \<forall>x'<ns. u' ! w' ! l' ! x'
             = u ! w' ! l' ! x' + (if w' = w then bs ! (w + s) ! l' ! x' else 0))"
      by simp
  qed
  then show ?thesis by (simp add: sum_cond)
qed

lemma window_sums_cells:
  assumes "window_sums bs wc k nl ns = Inr win"
  shows "shape win wc nl ns
       \<and> (\<forall>w<wc. \<forall>s<k. \<forall>l<nl. \<forall>x<ns.
             w + s < length bs \<and> l < length (bs ! (w + s)) \<and> x < length (bs ! (w + s) ! l))
       \<and> (\<forall>w<wc. \<forall>l<nl. \<forall>x<ns. win ! w ! l ! x = (\<Sum>s<k. bs ! (w + s) ! l ! x))"
proof -
  have z: "shape (zero_bins wc nl ns) wc nl ns"
    by (rule shape_zero_bins)
  have "shape win wc nl ns
       \<and> (\<forall>w<wc. \<forall>s<k. \<forall>l<nl. \<forall>x<ns.
             w + s < length bs \<and> l < length (bs ! (w + s)) \<and> x < length (bs ! (w + s) ! l))
       \<and> (\<forall>w'<wc. \<forall>l'<nl. \<forall>x'<ns. win ! w' ! l' ! x'
             = zero_bins wc nl ns ! w' ! l' ! x'
               + (\<Sum>w<wc. if w' = w then (\<Sum>s<k. bs ! (w + s) ! l' ! x') else 0))"
  proof (rule for_each_adds [OF _ z assms [unfolded window_sums_def]])
    fix w u u'
    assume "w < wc" and "shape u wc nl ns"
      and "for_each [0..<k] (\<lambda>s. for_each [0..<nl] (\<lambda>l. for_each [0..<ns] (\<lambda>x win.
           add_cell win (int w) (int l) (int x) (get_cell bs (int (w + s)) (int l) (int x))))) u = Inr u'"
    from window_s_loop [OF this(2,1,3)]
    show "shape u' wc nl ns
       \<and> (\<forall>s<k. \<forall>l<nl. \<forall>x<ns. w + s < length bs \<and> l < length (bs ! (w + s)) \<and> x < length (bs ! (w + s) ! l))
       \<and> (\<forall>w'<wc. \<forall>l'<nl. \<forall>x'<ns. u' ! w' ! l' ! x'
             = u ! w' ! l' ! x' + (if w' = w then (\<Sum>s<k. bs ! (w + s) ! l' ! x') else 0))"
      by simp
  qed
  moreover have "\<forall>w'<wc. \<forall>l'<nl. \<forall>x'<ns. zero_bins wc nl ns ! w' ! l' ! x' = 0"
    by (simp add: zero_bins_def)
  ultimately show ?thesis
    by (simp add: sum_pick0)
qed





section \<open>Properties\<close>

text \<open>
  C1. The number of window rows of a chromosome is not computed from that chromosome's own
  length: \<^verbatim>\<open>window_count\<close> is assigned once, from the last name of the table. With
  chromosomes of 40 and 20 bases, window 20 and step 10, the formula gives 3 windows for
  the first and 1 for the second. When the shorter chromosome is last in the table both
  get 1 row; when the longer one is last, the count 3 makes the loop read bin 2 of the
  shorter chromosome, which has 2 bins, and the run ends with \<^verbatim>\<open>IndexError\<close>.
\<close>

theorem window_count_taken_from_last_chromosome:
  "aggregate
       \<lparr>arg_window = 20, arg_step = 10, normalize = False, abundance = False,
         sizemin = 5, sizemax = 5, poolstrands = True\<rparr>
       [(''chr1'', 40), (''chr2'', 20)] 20 10
       (init_steps
          \<lparr>arg_window = 20, arg_step = 10, normalize = False, abundance = False,
         sizemin = 5, sizemax = 5, poolstrands = True\<rparr>
          10 [(''chr1'', 40), (''chr2'', 20)])
     = ([(''chr1'', 0, [0]), (''chr2'', 0, [0])], None)
   \<and> ceil_div (40 - 20) 10 + 1 = 3
   \<and> aggregate
       \<lparr>arg_window = 20, arg_step = 10, normalize = False, abundance = False,
         sizemin = 5, sizemax = 5, poolstrands = True\<rparr>
       [(''chr2'', 20), (''chr1'', 40)] 20 10
       (init_steps
          \<lparr>arg_window = 20, arg_step = 10, normalize = False, abundance = False,
         sizemin = 5, sizemax = 5, poolstrands = True\<rparr>
          10 [(''chr2'', 20), (''chr1'', 40)])
     = ([], Some IndexError)
   \<and> ceil_div (20 - 20) 10 + 1 = 1"
  by code_simp

text \<open>
  C2. With \<^verbatim>\<open>--abundance\<close>, a record without an NA tag does not end the run: the second
  record below carries no NA tag, and the run completes with the tally 25 in its bin,
  the 5 bases of the read times the value 5 that \<^verbatim>\<open>na\<close> kept from the record before it.
\<close>

theorem missing_tag_reuses_previous_value:
  "main
       \<lparr>arg_window = 10, arg_step = 10, normalize = False, abundance = True,
         sizemin = 5, sizemax = 5, poolstrands = True\<rparr>
       [tsv [''@SQ'', ''SN:chr1'', ''LN:20''],
        tsv [''r1'', ''0'', ''chr1'', ''1'', ''255'', ''5M'', ''*'', ''0'', ''0'', ''AAAAA'', ''*'', ''NA:i:5''],
        tsv [''r2'', ''0'', ''chr1'', ''11'', ''255'', ''5M'', ''*'', ''0'', ''0'', ''AAAAA'', ''*'']]
       []
     = ([(''chr1'', 0, [25]), (''chr1'', 1, [25])], None)"
  by code_simp

text \<open>
  C3. The length function does not return the sum of the operand counts for a CIGAR
  string with more than one operation: on \<^verbatim>\<open>5S15M\<close> the first operation leaves the integer
  0 in \<^verbatim>\<open>number\<close>, and the next digit raises \<^verbatim>\<open>TypeError\<close> where the sum would be 20.
  A string with one operation, \<^verbatim>\<open>20M\<close>, gives its count.
\<close>

theorem getLength_two_operations_raises:
  "getLength ''5S15M'' = Inl TypeError \<and> getLength ''20M'' = Inr 20"
  by code_simp









text \<open>
  C7. Every window the loops produce holds, for each read length and strand, the sum of
  the tallies of the bins \<open>w\<close> to \<open>w + k - 1\<close>, where \<open>k\<close> is window / step; every one of
  these bins exists.
\<close>

theorem window_is_sum_of_its_bins:
  assumes "window_sums bs wc k nl ns = Inr win" and "w < wc" and "l < nl" and "x < ns"
  shows "win ! w ! l ! x = (\<Sum>s<k. bs ! (w + s) ! l ! x)
       \<and> (\<forall>s<k. w + s < length bs \<and> l < length (bs ! (w + s)) \<and> x < length (bs ! (w + s) ! l))"
  using window_sums_cells [OF assms(1)] assms(2-4) by simp

theorem window_is_sum_of_its_bins_witness:
  "window_sums [[[1]], [[2]], [[4]]] 2 2 1 1 = Inr [[[3]], [[6]]]
   \<and> [[[3]], [[6::rat]]] ! 1 ! 0 ! 0 = (\<Sum>s<2. [[[1]], [[2]], [[4]]] ! (1 + s) ! 0 ! 0)
   \<and> 1 + 1 < length [[[1]], [[2]], [[4::rat]]]"
proof -
  have r: "window_sums [[[1]], [[2]], [[4]]] 2 2 1 1 = Inr [[[3]], [[6]]]"
    by code_simp
  from window_is_sum_of_its_bins [OF r, of 1 0 0] r show ?thesis
    by simp
qed



text \<open>
  C9. The tally depends on the order of the records. With \<^verbatim>\<open>--abundance\<close>, the record
  \<^verbatim>\<open>r2\<close> has no NA tag and is weighted with the value of the record read before it: 5
  after \<^verbatim>\<open>r1\<close>, 7 after \<^verbatim>\<open>r3\<close>. The same three records in the two orders leave 25 and 35
  in the bin of \<^verbatim>\<open>r2\<close>.
\<close>

theorem tally_depends_on_record_order:
  "map_sum id (\<lambda>st. steps st ''chr1'')
     (tally
        \<lparr>arg_window = 10, arg_step = 10, normalize = False, abundance = True,
         sizemin = 5, sizemax = 5, poolstrands = True\<rparr> 10
        [tsv [''r1'', ''0'', ''chr1'', ''1'', ''255'', ''5M'', ''*'', ''0'', ''0'', ''AAAAA'', ''*'', ''NA:i:5''],
         tsv [''r2'', ''0'', ''chr1'', ''11'', ''255'', ''5M'', ''*'', ''0'', ''0'', ''AAAAA'', ''*''],
         tsv [''r3'', ''0'', ''chr1'', ''21'', ''255'', ''5M'', ''*'', ''0'', ''0'', ''AAAAA'', ''*'', ''NA:i:7'']]
        \<lparr>steps = init_steps
           \<lparr>arg_window = 10, arg_step = 10, normalize = False, abundance = True,
         sizemin = 5, sizemax = 5, poolstrands = True\<rparr>
           10 [(''chr1'', 30)], na = None, nh = None\<rparr>)
     = Inr (Some [[[25]], [[25]], [[35]]])
   \<and> map_sum id (\<lambda>st. steps st ''chr1'')
     (tally
        \<lparr>arg_window = 10, arg_step = 10, normalize = False, abundance = True,
         sizemin = 5, sizemax = 5, poolstrands = True\<rparr> 10
        [tsv [''r3'', ''0'', ''chr1'', ''21'', ''255'', ''5M'', ''*'', ''0'', ''0'', ''AAAAA'', ''*'', ''NA:i:7''],
         tsv [''r2'', ''0'', ''chr1'', ''11'', ''255'', ''5M'', ''*'', ''0'', ''0'', ''AAAAA'', ''*''],
         tsv [''r1'', ''0'', ''chr1'', ''1'', ''255'', ''5M'', ''*'', ''0'', ''0'', ''AAAAA'', ''*'', ''NA:i:5'']]
        \<lparr>steps = init_steps
           \<lparr>arg_window = 10, arg_step = 10, normalize = False, abundance = True,
         sizemin = 5, sizemax = 5, poolstrands = True\<rparr>
           10 [(''chr1'', 30)], na = None, nh = None\<rparr>)
     = Inr (Some [[[25]], [[35]], [[35]]])"
  by code_simp



end
